theory Spec2Isabelle
  imports Main
begin

section \<open>Exceptions\<close>

text \<open>
  The exception classes of \<^verbatim>\<open>exceptions.py\<close>, together with the other
  exceptions the modelled functions can run into: \<^verbatim>\<open>IndexError\<close> (the
  \<^verbatim>\<open>[0]\<close> of an empty selection), the \<^verbatim>\<open>ValueError\<close> of a validator,
  pydantic's \<^verbatim>\<open>ValidationError\<close> (what a model's construction raises when a
  validator raised \<^verbatim>\<open>ValueError\<close>) and \<^verbatim>\<open>UnboundLocalError\<close>.
  An exception value is its class and its \<^verbatim>\<open>__cause__\<close> chain:
  \<^verbatim>\<open>raise C(...) from e\<close> is \<open>From C e\<close>. Message strings are not modelled.
\<close>

datatype exc_class =
    UserNotCreatedException
  | UserNotFoundException
  | UserNotUpdatedException
  | UserNotDeletedException
  | UserNotBuyerException
  | UserNotSellerException
  | UserPasswordMatchException
  | UserExistsException
  | ProductNotCreatedException
  | ProductNotFoundException
  | ProductNotUpdatedException
  | ProductNotDeletedException
  | ProductExistsException
  | ProductAmountUnavailableException
  | NonAllowedDepositException
  | ZeroDepositException
  | PurchaseException
  | IndexError
  | ValueError
  | ValidationError
  | UnboundLocalError

datatype exc = Exc exc_class | From exc_class exc

fun exc_class_of :: "exc \<Rightarrow> exc_class" where
  "exc_class_of (Exc c) = c"
| "exc_class_of (From c _) = c"

section \<open>Data model\<close>

text \<open>
  \<^verbatim>\<open>UserModel\<close> (user.py) and \<^verbatim>\<open>ProductModel\<close> (product.py). The field
  \<^verbatim>\<open>id\<close> is written \<open>id'\<close>. A row of \<^verbatim>\<open>user_db.csv\<close> or
  \<^verbatim>\<open>product_db.csv\<close> has the same fields as the model built from it, so a row is a
  value of the same record type that has not been through the validators yet.
\<close>

record UserModel =
  id' :: string
  username :: string
  password :: string
  deposit :: int
  role :: string

record ProductModel =
  productId :: string
  productName :: string
  cost :: int
  amountAvailable :: int
  sellerId :: string

text \<open>
  The two CSV files, as the lists of their rows in file order. Both files are taken to
  exist with their header line, and every cell to hold a value of its column's type.
\<close>

record db =
  user_db :: "UserModel list"
  product_db :: "ProductModel list"

section \<open>user\_utils.py\<close>

definition hash_password :: "string \<Rightarrow> string" where
  "hash_password pw = pw"

definition verify_password :: "string \<Rightarrow> string \<Rightarrow> bool" where
  "verify_password hashed_password normal_password \<longleftrightarrow>
     hash_password normal_password = hashed_password"

section \<open>user.py: the model and its validators\<close>

text \<open>Each validator returns its value or raises \<^verbatim>\<open>ValueError\<close>.\<close>

definition empty_id :: "string \<Rightarrow> exc + string" where
  "empty_id v = (if v = '''' then Inl (Exc ValueError) else Inr v)"

definition empty_username :: "string \<Rightarrow> exc + string" where
  "empty_username v = (if v = '''' then Inl (Exc ValueError) else Inr v)"

definition empty_password :: "string \<Rightarrow> exc + string" where
  "empty_password v = (if v = '''' then Inl (Exc ValueError) else Inr v)"

definition deposit_lesser_than_zero :: "int \<Rightarrow> exc + int" where
  "deposit_lesser_than_zero v = (if v < 0 then Inl (Exc ValueError) else Inr v)"

text \<open>
  \<^verbatim>\<open>UserModel(**data)\<close>: every field is validated, and the construction raises
  \<^verbatim>\<open>ValidationError\<close> when some validator raised.
\<close>

definition UserModel_init :: "UserModel \<Rightarrow> exc + UserModel" where
  "UserModel_init data =
     (if isl (empty_id (id' data)) \<or> isl (empty_username (username data))
         \<or> isl (empty_password (password data))
         \<or> isl (deposit_lesser_than_zero (deposit data))
      then Inl (Exc ValidationError) else Inr data)"

text \<open>\<^verbatim>\<open>pd_dataframe[pd_dataframe["username"] == username]\<close>\<close>

definition rows_of_user :: "UserModel list \<Rightarrow> string \<Rightarrow> UserModel list" where
  "rows_of_user pd_dataframe uname = filter (\<lambda>r. username r = uname) pd_dataframe"

text \<open>
  \<^verbatim>\<open>UserModel(**{key: value[0] for key, value in user_df.to_dict(orient="list").items()})\<close>:
  the first selected row, \<^verbatim>\<open>IndexError\<close> when the selection is empty.
\<close>

definition UserModel_of_rows :: "UserModel list \<Rightarrow> exc + UserModel" where
  "UserModel_of_rows user_df =
     (case user_df of [] \<Rightarrow> Inl (Exc IndexError) | r # _ \<Rightarrow> UserModel_init r)"

text \<open>
  \<^verbatim>\<open>get_user(username=...)\<close>, the form every caller in user.py uses. Only
  \<^verbatim>\<open>IndexError\<close> is caught; a validation error of the stored row propagates.
\<close>

definition get_user :: "db \<Rightarrow> string \<Rightarrow> exc + UserModel" where
  "get_user s uname =
     (case UserModel_of_rows (rows_of_user (user_db s) uname) of
        Inl e \<Rightarrow> Inl (if exc_class_of e = IndexError then From UserNotFoundException e else e)
      | Inr u \<Rightarrow> Inr u)"

text \<open>
  The two \<^verbatim>\<open>except\<close> clauses shared by \<^verbatim>\<open>deposit_amount\<close> and
  \<^verbatim>\<open>deduct_amount\<close>: \<^verbatim>\<open>IndexError\<close> becomes \<^verbatim>\<open>UserNotFoundException\<close>,
  every other exception (also the ones the body raises itself) becomes
  \<^verbatim>\<open>UserNotUpdatedException\<close>.
\<close>

definition user_except :: "exc \<Rightarrow> exc" where
  "user_except e =
     (if exc_class_of e = IndexError then From UserNotFoundException e
      else From UserNotUpdatedException e)"

text \<open>
  \<^verbatim>\<open>deposit_amount\<close>. The role is read from the first selected row; the
  \<^verbatim>\<open>+=\<close> updates every selected row; the file is written before the returned model
  is validated.
\<close>

definition deposit_amount :: "db \<Rightarrow> string \<Rightarrow> int \<Rightarrow> db \<times> (exc + UserModel)" where
  "deposit_amount s uname dep =
     (case rows_of_user (user_db s) uname of
        [] \<Rightarrow> (s, Inl (user_except (Exc IndexError)))
      | r # _ \<Rightarrow>
          if role r \<noteq> ''buyer'' then (s, Inl (user_except (Exc UserNotBuyerException)))
          else if dep \<noteq> 0 \<and> dep \<notin> {5, 10, 20, 50, 100}
            then (s, Inl (user_except (Exc NonAllowedDepositException)))
          else
            let pd_dataframe =
                  (if dep \<noteq> 0
                   then map (\<lambda>r. if username r = uname
                                  then r\<lparr>deposit := deposit r + dep\<rparr> else r) (user_db s)
                   else user_db s);
                s' = s\<lparr>user_db := pd_dataframe\<rparr>
            in (case UserModel_of_rows (rows_of_user pd_dataframe uname) of
                  Inl e \<Rightarrow> (s', Inl (user_except e))
                | Inr u \<Rightarrow> (s', Inr u)))"

text \<open>
  \<^verbatim>\<open>deduct_amount\<close>. With \<^verbatim>\<open>amount == 0\<close> the local \<^verbatim>\<open>user_df\<close> is never
  bound and the \<^verbatim>\<open>return\<close> raises \<^verbatim>\<open>UnboundLocalError\<close>. Otherwise the file
  is written before the returned model is validated.
\<close>

definition deduct_amount :: "db \<Rightarrow> string \<Rightarrow> int \<Rightarrow> db \<times> (exc + UserModel)" where
  "deduct_amount s uname amount =
     (case rows_of_user (user_db s) uname of
        [] \<Rightarrow> (s, Inl (user_except (Exc IndexError)))
      | r # _ \<Rightarrow>
          if role r \<noteq> ''buyer'' then (s, Inl (user_except (Exc UserNotBuyerException)))
          else if amount \<noteq> 0 then
            let pd_dataframe =
                  map (\<lambda>r. if username r = uname
                             then r\<lparr>deposit := deposit r - amount\<rparr> else r) (user_db s);
                s' = s\<lparr>user_db := pd_dataframe\<rparr>
            in (case UserModel_of_rows (rows_of_user pd_dataframe uname) of
                  Inl e \<Rightarrow> (s', Inl (user_except e))
                | Inr u \<Rightarrow> (s', Inr u))
          else (s, Inl (user_except (Exc UnboundLocalError))))"

section \<open>product.py\<close>

definition empty_productId :: "string \<Rightarrow> exc + string" where
  "empty_productId v = (if v = '''' then Inl (Exc ValueError) else Inr v)"

definition empty_productName :: "string \<Rightarrow> exc + string" where
  "empty_productName v = (if v = '''' then Inl (Exc ValueError) else Inr v)"

definition cost_divisible_by_five :: "int \<Rightarrow> exc + int" where
  "cost_divisible_by_five v = (if v mod 5 \<noteq> 0 then Inl (Exc ValueError) else Inr v)"

definition cost_lesser_than_zero :: "int \<Rightarrow> exc + int" where
  "cost_lesser_than_zero v = (if v < 0 then Inl (Exc ValueError) else Inr v)"

definition amountAvailable_lesser_than_zero :: "int \<Rightarrow> exc + int" where
  "amountAvailable_lesser_than_zero v = (if v < 0 then Inl (Exc ValueError) else Inr v)"

definition empty_sellerId :: "string \<Rightarrow> exc + string" where
  "empty_sellerId v = (if v = '''' then Inl (Exc ValueError) else Inr v)"

text \<open>
  \<^verbatim>\<open>sellerId_not_found\<close> reads \<^verbatim>\<open>user_db.csv\<close> and raises
  \<^verbatim>\<open>UserNotFoundException\<close>, which is no \<^verbatim>\<open>ValueError\<close>.
\<close>

definition sellerId_not_found :: "db \<Rightarrow> string \<Rightarrow> exc + string" where
  "sellerId_not_found s v =
     (if v \<notin> set (map id' (user_db s)) then Inl (Exc UserNotFoundException) else Inr v)"

text \<open>
  \<^verbatim>\<open>ProductModel(**data)\<close>. The fields are validated in declaration order and the
  validators of one field in definition order, stopping at the first that raises
  \<^verbatim>\<open>ValueError\<close>; such errors are collected into one \<^verbatim>\<open>ValidationError\<close>
  raised at the end. \<^verbatim>\<open>sellerId\<close> is the last field and its second validator runs
  only when the first passed; its \<^verbatim>\<open>UserNotFoundException\<close> is not collected and
  leaves the construction at once.
\<close>

definition ProductModel_init :: "db \<Rightarrow> ProductModel \<Rightarrow> exc + ProductModel" where
  "ProductModel_init s data =
     (if \<not> isl (empty_sellerId (sellerId data)) \<and> isl (sellerId_not_found s (sellerId data))
      then Inl (Exc UserNotFoundException)
      else if isl (empty_productId (productId data))
           \<or> isl (empty_productName (productName data))
           \<or> isl (cost_divisible_by_five (cost data))
           \<or> isl (cost_lesser_than_zero (cost data))
           \<or> isl (amountAvailable_lesser_than_zero (amountAvailable data))
           \<or> isl (empty_sellerId (sellerId data))
      then Inl (Exc ValidationError)
      else Inr data)"

text \<open>\<^verbatim>\<open>pd_dataframe[pd_dataframe["productId"] == productId]\<close>\<close>

definition rows_of_product :: "ProductModel list \<Rightarrow> string \<Rightarrow> ProductModel list" where
  "rows_of_product pd_dataframe pid = filter (\<lambda>r. productId r = pid) pd_dataframe"

definition ProductModel_of_rows :: "db \<Rightarrow> ProductModel list \<Rightarrow> exc + ProductModel" where
  "ProductModel_of_rows s product_df =
     (case product_df of [] \<Rightarrow> Inl (Exc IndexError) | r # _ \<Rightarrow> ProductModel_init s r)"

text \<open>\<^verbatim>\<open>get_product(productId=...)\<close>, the form \<^verbatim>\<open>buy_product\<close> uses.\<close>

definition get_product :: "db \<Rightarrow> string \<Rightarrow> exc + ProductModel" where
  "get_product s pid =
     (case ProductModel_of_rows s (rows_of_product (product_db s) pid) of
        Inl e \<Rightarrow> Inl (if exc_class_of e = IndexError then From ProductNotFoundException e else e)
      | Inr p \<Rightarrow> Inr p)"

text \<open>
  \<^verbatim>\<open>create_new_product\<close>. The random 16-character id is the argument
  \<open>new_id\<close>. The row is appended inside the \<^verbatim>\<open>try\<close>; the model is validated
  only in the \<^verbatim>\<open>return\<close>, after the write and outside the \<^verbatim>\<open>try\<close>. An empty
  file (\<^verbatim>\<open>EmptyDataError\<close>) gets the header and the same row.
\<close>

definition create_new_product ::
  "db \<Rightarrow> string \<Rightarrow> string \<Rightarrow> int \<Rightarrow> int \<Rightarrow> string \<Rightarrow> db \<times> (exc + ProductModel)" where
  "create_new_product s new_id pname c amt sid =
     (let data = \<lparr>productId = new_id, productName = pname, cost = c,
                  amountAvailable = amt, sellerId = sid\<rparr>
      in if filter (\<lambda>r. sellerId r = sid \<and> productName r = pname) (product_db s) \<noteq> []
         then (s, Inl (From ProductNotCreatedException (Exc ProductExistsException)))
         else let s' = s\<lparr>product_db := product_db s @ [data]\<rparr>
              in (s', ProductModel_init s' data))"

text \<open>
  \<^verbatim>\<open>take_product\<close>: one \<^verbatim>\<open>except Exception\<close> wraps everything, also the
  \<^verbatim>\<open>PurchaseException\<close> of the stock test.
\<close>

definition take_product :: "db \<Rightarrow> string \<Rightarrow> int \<Rightarrow> db \<times> (exc + ProductModel)" where
  "take_product s pid no_of_products =
     (case rows_of_product (product_db s) pid of
        [] \<Rightarrow> (s, Inl (From ProductNotUpdatedException (Exc IndexError)))
      | r # _ \<Rightarrow>
          if amountAvailable r < no_of_products
          then (s, Inl (From ProductNotUpdatedException (Exc PurchaseException)))
          else
            let pd_dataframe =
                  map (\<lambda>r. if productId r = pid
                             then r\<lparr>amountAvailable := amountAvailable r - no_of_products\<rparr>
                             else r) (product_db s);
                s' = s\<lparr>product_db := pd_dataframe\<rparr>
            in (case ProductModel_of_rows s' (rows_of_product pd_dataframe pid) of
                  Inl e \<Rightarrow> (s', Inl (From ProductNotUpdatedException e))
                | Inr p \<Rightarrow> (s', Inr p)))"

section \<open>user.py: buying\<close>

text \<open>
  The change loop of \<^verbatim>\<open>buy_product\<close>:
  \<^verbatim>\<open>for coin in [100, 50, 20, 10, 5]: if amount > 0: num = amount // coin; ...\<close>
\<close>

fun change_loop :: "int list \<Rightarrow> int \<Rightarrow> int list \<Rightarrow> int list" where
  "change_loop [] amount change = change"
| "change_loop (coin # coins) amount change =
     (if amount > 0
      then let num = amount div coin
           in change_loop coins (amount - coin * num) (change @ replicate (nat num) coin)
      else change_loop coins amount change)"

definition make_change :: "int \<Rightarrow> int list" where
  "make_change amount = change_loop [100, 50, 20, 10, 5] amount []"

text \<open>
  The \<^verbatim>\<open>except Exception as e\<close> clause of \<^verbatim>\<open>buy_product\<close>: the amount is
  given back through \<^verbatim>\<open>deposit_amount\<close>; when that call raises, its exception is
  the one that leaves \<^verbatim>\<open>buy_product\<close>.
\<close>

definition buy_except ::
  "db \<Rightarrow> UserModel \<Rightarrow> ProductModel \<Rightarrow> int \<Rightarrow> exc
     \<Rightarrow> db \<times> (exc + int \<times> ProductModel \<times> int list)" where
  "buy_except s user_obj product_obj no_of_products e =
     (case deposit_amount s (username user_obj) (cost product_obj * no_of_products) of
        (s', Inl e') \<Rightarrow> (s', Inl e')
      | (s', Inr _) \<Rightarrow> (s', Inl (From UserNotUpdatedException e)))"

text \<open>
  \<^verbatim>\<open>buy_product\<close> with its decrement step as the parameter \<open>decrement\<close>, so that a
  failure of that step between the debit and the decrement (a lost stock race, a failed
  write) can be stated. The function of the source is the instance \<open>buy_product\<close>
  below.
\<close>

definition buy_product_with ::
  "(db \<Rightarrow> string \<Rightarrow> int \<Rightarrow> db \<times> (exc + ProductModel))
     \<Rightarrow> db \<Rightarrow> string \<Rightarrow> string \<Rightarrow> int \<Rightarrow> db \<times> (exc + int \<times> ProductModel \<times> int list)" where
  "buy_product_with decrement s uname pid no_of_products =
     (case get_user s uname of
        Inl e \<Rightarrow>
          (s, Inl (if exc_class_of e = UserNotFoundException
                   then From UserNotFoundException e else e))
      | Inr user_obj \<Rightarrow>
          if role user_obj = ''seller'' then (s, Inl (Exc UserNotBuyerException))
          else if deposit user_obj = 0 then (s, Inl (Exc ZeroDepositException))
          else
            (case get_product s pid of
               Inl e \<Rightarrow>
                 (s, Inl (if exc_class_of e = ProductNotFoundException
                          then From ProductNotFoundException e else e))
             | Inr product_obj \<Rightarrow>
                 if amountAvailable product_obj < no_of_products
                 then (s, Inl (Exc ProductAmountUnavailableException))
                 else if deposit user_obj < cost product_obj * no_of_products
                 then (s, Inl (Exc PurchaseException))
                 else
                   (case deduct_amount s (username user_obj)
                           (cost product_obj * no_of_products) of
                      (s1, Inl e) \<Rightarrow> buy_except s1 user_obj product_obj no_of_products e
                    | (s1, Inr user_obj1) \<Rightarrow>
                        (case decrement s1 (productId product_obj) no_of_products of
                           (s2, Inl e) \<Rightarrow>
                             buy_except s2 user_obj1 product_obj no_of_products e
                         | (s2, Inr product_obj1) \<Rightarrow>
                             (s2, Inr (cost product_obj1 * no_of_products, product_obj1,
                                       make_change (deposit user_obj1)))))))"

definition buy_product ::
  "db \<Rightarrow> string \<Rightarrow> string \<Rightarrow> int \<Rightarrow> db \<times> (exc + int \<times> ProductModel \<times> int list)" where
  "buy_product = buy_product_with take_product"

section \<open>Example stores\<close>

text \<open>The buyer and the seller of test\_user.py and the product of test\_product.py.\<close>

definition johny :: "int \<Rightarrow> UserModel" where
  "johny d = \<lparr>id' = ''ab12'', username = ''Johny'', password = ''abcde'',
               deposit = d, role = ''buyer''\<rparr>"

definition blade :: UserModel where
  "blade = \<lparr>id' = ''uqfp2h1jh8at5pvo'', username = ''Blade'', password = ''abc2356'',
             deposit = 0, role = ''seller''\<rparr>"

definition apple :: "int \<Rightarrow> int \<Rightarrow> ProductModel" where
  "apple c n = \<lparr>productId = ''1234e'', productName = ''apple'', cost = c,
                 amountAvailable = n, sellerId = ''uqfp2h1jh8at5pvo''\<rparr>"

definition shop :: "int \<Rightarrow> int \<Rightarrow> int \<Rightarrow> db" where
  "shop d c n = \<lparr>user_db = [johny d, blade], product_db = [apple c n]\<rparr>"

text \<open>
  A decrement step that loses a stock race: a rival purchase empties the shelf just
  before \<^verbatim>\<open>take_product\<close> reads the file.
\<close>

definition take_after_rival :: "db \<Rightarrow> string \<Rightarrow> int \<Rightarrow> db \<times> (exc + ProductModel)" where
  "take_after_rival s pid no_of_products =
     take_product
       (s\<lparr>product_db := map (\<lambda>r. r\<lparr>amountAvailable := 0\<rparr>) (product_db s)\<rparr>)
       pid no_of_products"

section \<open>Unfolding sets\<close>

lemmas user_validators = empty_id_def empty_username_def empty_password_def
  deposit_lesser_than_zero_def
lemmas product_validators = empty_productId_def empty_productName_def
  cost_divisible_by_five_def cost_lesser_than_zero_def amountAvailable_lesser_than_zero_def
  empty_sellerId_def sellerId_not_found_def
lemmas store_defs = shop_def johny_def blade_def apple_def
lemmas user_defs = get_user_def rows_of_user_def UserModel_of_rows_def UserModel_init_def
  user_validators user_except_def deposit_amount_def deduct_amount_def
lemmas product_defs = get_product_def rows_of_product_def ProductModel_of_rows_def
  ProductModel_init_def product_validators take_product_def create_new_product_def
lemmas buy_defs = buy_product_def buy_product_with_def buy_except_def make_change_def

section \<open>The change loop\<close>

lemma change_loop_step:
  assumes "0 \<le> amount" and "0 < coin"
  shows "change_loop (coin # coins) amount change =
         change_loop coins (amount mod coin) (change @ replicate (nat (amount div coin)) coin)"
proof (cases "amount = 0")
  case True
  then show ?thesis by simp
next
  case False
  with assms have "0 < amount" by simp
  then show ?thesis by (simp add: Let_def minus_mult_div_eq_mod)
qed

lemma make_change_greedy:
  assumes "0 \<le> n"
  shows "make_change n =
     replicate (nat (n div 100)) 100
   @ replicate (nat (n mod 100 div 50)) 50
   @ replicate (nat (n mod 100 mod 50 div 20)) 20
   @ replicate (nat (n mod 100 mod 50 mod 20 div 10)) 10
   @ replicate (nat (n mod 100 mod 50 mod 20 mod 10 div 5)) 5"
proof -
  have r1: "0 \<le> n mod 100" by simp
  have r2: "0 \<le> n mod 100 mod 50" by simp
  have r3: "0 \<le> n mod 100 mod 50 mod 20" by simp
  have r4: "0 \<le> n mod 100 mod 50 mod 20 mod 10" by simp
  show ?thesis
    unfolding make_change_def
    by (simp only: change_loop_step[OF assms] change_loop_step[OF r1] change_loop_step[OF r2]
        change_loop_step[OF r3] change_loop_step[OF r4] change_loop.simps(1) append_Nil append_assoc
        zero_less_numeral)
qed


lemma change_loop_sum:
  assumes "0 \<le> amount" and "\<forall>c \<in> set coins. 0 < c"
  shows "sum_list (change_loop coins amount change)
           = sum_list change + amount - fold (\<lambda>c a. a mod c) coins amount"
  using assms
proof (induction coins arbitrary: amount change)
  case Nil
  then show ?case by simp
next
  case (Cons c cs)
  have c: "0 < c" and cs: "\<forall>x \<in> set cs. 0 < x"
    using Cons.prems(2) by simp_all
  have nn: "0 \<le> amount mod c" using c by simp
  have dn: "0 \<le> amount div c"
    using Cons.prems(1) c by (simp add: pos_imp_zdiv_nonneg_iff)
  have "sum_list (change_loop (c # cs) amount change)
          = sum_list (change_loop cs (amount mod c) (change @ replicate (nat (amount div c)) c))"
    by (simp only: change_loop_step[OF Cons.prems(1) c])
  also have "\<dots> = sum_list (change @ replicate (nat (amount div c)) c) + amount mod c
                    - fold (\<lambda>c a. a mod c) cs (amount mod c)"
    by (rule Cons.IH[OF nn cs])
  also have "sum_list (change @ replicate (nat (amount div c)) c)
               = sum_list change + amount div c * c"
    using dn by (simp add: sum_list_replicate)
  also have "sum_list change + amount div c * c + amount mod c = sum_list change + amount"
    by (simp only: add.assoc div_mult_mod_eq)
  also have "fold (\<lambda>c a. a mod c) cs (amount mod c) = fold (\<lambda>c a. a mod c) (c # cs) amount"
    by simp
  finally show ?case .
qed

lemma make_change_sum:
  assumes "0 \<le> n"
  shows "sum_list (make_change n) = n - n mod 5"
proof -
  have "sum_list (make_change n) = n - n mod 100 mod 50 mod 20 mod 10 mod 5"
    unfolding make_change_def
    by (subst change_loop_sum[OF assms]) simp_all
  also have "n mod 100 mod 50 mod 20 mod 10 mod 5 = n mod 100 mod 50 mod 20 mod 5"
    by (rule mod_mod_cancel) simp
  also have "\<dots> = n mod 100 mod 50 mod 5"
    by (rule mod_mod_cancel) simp
  also have "\<dots> = n mod 100 mod 5"
    by (rule mod_mod_cancel) simp
  also have "\<dots> = n mod 5"
    by (rule mod_mod_cancel) simp
  finally show ?thesis .
qed

section \<open>The account store\<close>

lemma UserModel_init_Inr:
  "UserModel_init r = Inr u \<longleftrightarrow>
     u = r \<and> id' r \<noteq> [] \<and> username r \<noteq> [] \<and> password r \<noteq> [] \<and> 0 \<le> deposit r"
  by (auto simp: UserModel_init_def user_validators)

lemma get_user_Inr:
  "get_user s uname = Inr usr \<longleftrightarrow>
     (\<exists>rest. rows_of_user (user_db s) uname = usr # rest) \<and> UserModel_init usr = Inr usr"
  by (auto simp: get_user_def UserModel_of_rows_def UserModel_init_def split: list.splits sum.splits if_splits)

lemma rows_of_user_update:
  "rows_of_user (map (\<lambda>r. if username r = uname then r\<lparr>deposit := f (deposit r)\<rparr> else r) rows) uname
     = map (\<lambda>r. r\<lparr>deposit := f (deposit r)\<rparr>) (rows_of_user rows uname)"
  by (induction rows) (simp_all add: rows_of_user_def)

lemma deduct_amount_ok:
  assumes "get_user s uname = Inr usr" and "role usr = ''buyer''" and "amount \<noteq> 0"
    and "amount \<le> deposit usr"
  shows "deduct_amount s uname amount =
     (s\<lparr>user_db := map (\<lambda>r. if username r = uname then r\<lparr>deposit := deposit r - amount\<rparr> else r)
                       (user_db s)\<rparr>,
      Inr (usr\<lparr>deposit := deposit usr - amount\<rparr>))"
proof -
  from assms(1) obtain rest where sel: "rows_of_user (user_db s) uname = usr # rest"
    and ok: "UserModel_init usr = Inr usr"
    by (auto simp: get_user_Inr)
  have ok': "UserModel_init (usr\<lparr>deposit := deposit usr - amount\<rparr>) = Inr (usr\<lparr>deposit := deposit usr - amount\<rparr>)"
    using ok assms(4) by (simp add: UserModel_init_Inr)
  show ?thesis
    using sel assms(2,3) ok'
    by (simp add: deduct_amount_def Let_def rows_of_user_update[where f = "\<lambda>d. d - amount"]
        UserModel_of_rows_def)
qed

lemma deposit_amount_ok:
  assumes "get_user s uname = Inr usr" and "role usr = ''buyer''"
    and "dep \<in> {5, 10, 20, 50, 100}"
  shows "deposit_amount s uname dep =
     (s\<lparr>user_db := map (\<lambda>r. if username r = uname then r\<lparr>deposit := deposit r + dep\<rparr> else r)
                       (user_db s)\<rparr>,
      Inr (usr\<lparr>deposit := deposit usr + dep\<rparr>))"
proof -
  from assms(1) obtain rest where sel: "rows_of_user (user_db s) uname = usr # rest"
    and ok: "UserModel_init usr = Inr usr"
    by (auto simp: get_user_Inr)
  have pos: "0 < dep" using assms(3) by auto
  have ok': "UserModel_init (usr\<lparr>deposit := deposit usr + dep\<rparr>) = Inr (usr\<lparr>deposit := deposit usr + dep\<rparr>)"
    using ok pos by (simp add: UserModel_init_Inr)
  have nz: "dep \<noteq> 0" using pos by simp
  show ?thesis
    using sel assms(2) ok' nz assms(3)
    by (simp add: deposit_amount_def Let_def rows_of_user_update[where f = "\<lambda>d. d + dep"]
        UserModel_of_rows_def del: insert_iff)
qed

lemma deposit_amount_zero:
  assumes "get_user s uname = Inr usr" and "role usr = ''buyer''"
  shows "deposit_amount s uname 0 = (s, Inr usr)"
proof -
  from assms(1) obtain rest where sel: "rows_of_user (user_db s) uname = usr # rest"
    and ok: "UserModel_init usr = Inr usr"
    by (auto simp: get_user_Inr)
  show ?thesis using sel ok assms(2)
    by (simp add: deposit_amount_def UserModel_of_rows_def)
qed

lemma deposit_amount_not_coin:
  assumes "get_user s uname = Inr usr" and "role usr = ''buyer''"
    and "dep \<noteq> 0" and "dep \<notin> {5, 10, 20, 50, 100}"
  shows "deposit_amount s uname dep = (s, Inl (From UserNotUpdatedException (Exc NonAllowedDepositException)))"
proof -
  from assms(1) obtain rest where sel: "rows_of_user (user_db s) uname = usr # rest"
    by (auto simp: get_user_Inr)
  show ?thesis using sel assms(2,3,4)
    by (simp add: deposit_amount_def user_except_def del: insert_iff)
qed

lemma deposit_amount_not_buyer:
  assumes "get_user s uname = Inr usr" and "role usr \<noteq> ''buyer''"
  shows "deposit_amount s uname dep = (s, Inl (From UserNotUpdatedException (Exc UserNotBuyerException)))"
proof -
  from assms(1) obtain rest where sel: "rows_of_user (user_db s) uname = usr # rest"
    by (auto simp: get_user_Inr)
  show ?thesis using sel assms(2)
    by (simp add: deposit_amount_def user_except_def)
qed

lemma get_user_after_update:
  assumes "get_user s uname = Inr usr" and "0 \<le> f (deposit usr)"
  shows "get_user (s\<lparr>user_db := map (\<lambda>r. if username r = uname then r\<lparr>deposit := f (deposit r)\<rparr> else r)
                       (user_db s)\<rparr>) uname = Inr (usr\<lparr>deposit := f (deposit usr)\<rparr>)"
proof -
  from assms(1) obtain rest where sel: "rows_of_user (user_db s) uname = usr # rest"
    and ok: "UserModel_init usr = Inr usr"
    by (auto simp: get_user_Inr)
  show ?thesis using sel ok assms(2)
    by (simp add: get_user_Inr rows_of_user_update UserModel_init_Inr)
qed

section \<open>The catalog store\<close>

lemma ProductModel_init_Inr:
  "ProductModel_init s r = Inr p \<longleftrightarrow>
     p = r \<and> productId r \<noteq> [] \<and> productName r \<noteq> [] \<and> cost r mod 5 = 0 \<and> 0 \<le> cost r
       \<and> 0 \<le> amountAvailable r \<and> sellerId r \<noteq> [] \<and> sellerId r \<in> set (map id' (user_db s))"
  by (auto simp: ProductModel_init_def product_validators)

lemma get_product_Inr:
  "get_product s pid = Inr p \<longleftrightarrow>
     (\<exists>rest. rows_of_product (product_db s) pid = p # rest) \<and> ProductModel_init s p = Inr p"
  by (auto simp: get_product_def ProductModel_of_rows_def ProductModel_init_def
      split: list.splits sum.splits if_splits)

lemma rows_of_product_update:
  "rows_of_product (map (\<lambda>r. if productId r = pid then r\<lparr>amountAvailable := f (amountAvailable r)\<rparr> else r) rows) pid
     = map (\<lambda>r. r\<lparr>amountAvailable := f (amountAvailable r)\<rparr>) (rows_of_product rows pid)"
  by (induction rows) (simp_all add: rows_of_product_def)

lemma take_product_ok:
  assumes "get_product s pid = Inr p" and "\<not> amountAvailable p < n"
  shows "take_product s pid n =
     (s\<lparr>product_db := map (\<lambda>r. if productId r = pid
                                  then r\<lparr>amountAvailable := amountAvailable r - n\<rparr> else r)
                          (product_db s)\<rparr>,
      Inr (p\<lparr>amountAvailable := amountAvailable p - n\<rparr>))"
proof -
  from assms(1) obtain rest where sel: "rows_of_product (product_db s) pid = p # rest"
    and ok: "ProductModel_init s p = Inr p"
    by (auto simp: get_product_Inr)
  let ?s' = "s\<lparr>product_db := map (\<lambda>r. if productId r = pid
                                  then r\<lparr>amountAvailable := amountAvailable r - n\<rparr> else r)
                          (product_db s)\<rparr>"
  have ok': "ProductModel_init ?s' (p\<lparr>amountAvailable := amountAvailable p - n\<rparr>)
               = Inr (p\<lparr>amountAvailable := amountAvailable p - n\<rparr>)"
    using ok assms(2) by (simp add: ProductModel_init_Inr)
  show ?thesis
    using sel assms(2) ok'
    by (simp add: take_product_def Let_def rows_of_product_update[where f = "\<lambda>a. a - n"]
        ProductModel_of_rows_def)
qed

lemma ProductModel_init_cong:
  assumes "map id' (user_db s') = map id' (user_db s)"
  shows "ProductModel_init s' p = ProductModel_init s p"
  unfolding ProductModel_init_def sellerId_not_found_def
  by (simp only: assms)

lemma get_product_user_update:
  assumes "get_product s pid = Inr p"
  shows "get_product (s\<lparr>user_db := map (\<lambda>r. if username r = uname then r\<lparr>deposit := f (deposit r)\<rparr> else r)
                       (user_db s)\<rparr>) pid = Inr p"
proof -
  let ?s1 = "s\<lparr>user_db := map (\<lambda>r. if username r = uname then r\<lparr>deposit := f (deposit r)\<rparr> else r)
                       (user_db s)\<rparr>"
  have "map id' (user_db ?s1) = map id' (user_db s)"
    by (simp add: comp_def if_distrib[where f = id'])
  then have "ProductModel_init ?s1 p = ProductModel_init s p"
    by (rule ProductModel_init_cong)
  then show ?thesis
    using assms by (simp add: get_product_Inr)
qed

lemma buy_product_ok:
  assumes u: "get_user s uname = Inr usr" and b: "role usr = ''buyer''" and d: "deposit usr \<noteq> 0"
    and p: "get_product s pid = Inr p" and st: "\<not> amountAvailable p < n"
    and f: "\<not> deposit usr < cost p * n" and nz: "cost p * n \<noteq> 0"
  shows "buy_product s uname pid n =
    (s\<lparr>user_db := map (\<lambda>r. if username r = uname then r\<lparr>deposit := deposit r - cost p * n\<rparr> else r)
                      (user_db s),
       product_db := map (\<lambda>r. if productId r = pid
                                then r\<lparr>amountAvailable := amountAvailable r - n\<rparr> else r)
                         (product_db s)\<rparr>,
     Inr (cost p * n, p\<lparr>amountAvailable := amountAvailable p - n\<rparr>,
          make_change (deposit usr - cost p * n)))"
proof -
  let ?s1 = "s\<lparr>user_db := map (\<lambda>r. if username r = uname then r\<lparr>deposit := deposit r - cost p * n\<rparr> else r)
                      (user_db s)\<rparr>"
  have un: "username usr = uname" and pi: "productId p = pid"
    using u p by (auto simp: get_user_Inr get_product_Inr rows_of_user_def rows_of_product_def
        filter_eq_Cons_iff)
  have le: "cost p * n \<le> deposit usr" using f by simp
  have ded: "deduct_amount s uname (cost p * n) = (?s1, Inr (usr\<lparr>deposit := deposit usr - cost p * n\<rparr>))"
    by (rule deduct_amount_ok[OF u b nz le])
  have p1: "get_product ?s1 pid = Inr p"
    by (rule get_product_user_update[OF p, where f = "\<lambda>d. d - cost p * n"])
  have tk: "take_product ?s1 pid n =
     (?s1\<lparr>product_db := map (\<lambda>r. if productId r = pid
                                  then r\<lparr>amountAvailable := amountAvailable r - n\<rparr> else r)
                          (product_db ?s1)\<rparr>,
      Inr (p\<lparr>amountAvailable := amountAvailable p - n\<rparr>))"
    by (rule take_product_ok[OF p1 st])
  have ns: "role usr \<noteq> ''seller''" using b by simp
  show ?thesis
    using u ns d p st f un pi
    by (simp add: buy_product_def buy_product_with_def ded tk)
qed

section \<open>Purchases\<close>

lemma get_user_shop: "0 \<le> d \<Longrightarrow> get_user (shop d c n) ''Johny'' = Inr (johny d)"
  by (simp add: store_defs user_defs)

lemma get_user_shop_blade: "get_user (shop d c n) ''Blade'' = Inr blade"
  by (simp add: store_defs user_defs)

lemma get_product_shop:
  "0 \<le> c \<Longrightarrow> c mod 5 = 0 \<Longrightarrow> 0 \<le> n \<Longrightarrow> get_product (shop d c n) ''1234e'' = Inr (apple c n)"
  by (simp add: store_defs product_defs)

lemma buy_except_Inl: "isl (snd (buy_except s user_obj product_obj n e))"
  by (simp add: buy_except_def split: prod.splits sum.splits)

lemma deduct_amount_fails:
  assumes "get_user s uname = Inr usr" and "role usr \<noteq> ''buyer'' \<or> amount = 0"
  shows "isl (snd (deduct_amount s uname amount))"
proof -
  from assms(1) obtain rest where sel: "rows_of_user (user_db s) uname = usr # rest"
    by (auto simp: get_user_Inr)
  show ?thesis using sel assms(2) by (auto simp: deduct_amount_def)
qed

lemma buy_product_Inr_conditions:
  assumes ok: "buy_product s uname pid n = (s', Inr res)"
  shows "\<exists>usr p. get_user s uname = Inr usr \<and> role usr = ''buyer'' \<and> 0 < deposit usr
           \<and> get_product s pid = Inr p \<and> n \<le> amountAvailable p \<and> cost p * n \<le> deposit usr
           \<and> cost p * n \<noteq> 0"
proof -
  obtain usr where u: "get_user s uname = Inr usr"
    using ok by (cases "get_user s uname") (auto simp: buy_product_def buy_product_with_def)
  have ns: "role usr \<noteq> ''seller''" and d: "deposit usr \<noteq> 0"
    using ok u by (auto simp: buy_product_def buy_product_with_def split: if_splits)
  obtain p where p: "get_product s pid = Inr p"
    using ok u ns d by (cases "get_product s pid") (auto simp: buy_product_def buy_product_with_def)
  have st: "\<not> amountAvailable p < n" and f: "\<not> deposit usr < cost p * n"
    using ok u ns d p by (auto simp: buy_product_def buy_product_with_def split: if_splits)
  have un: "username usr = uname"
    using u by (auto simp: get_user_Inr rows_of_user_def filter_eq_Cons_iff)
  have bnz: "role usr = ''buyer'' \<and> cost p * n \<noteq> 0"
  proof (rule ccontr)
    assume "\<not> (role usr = ''buyer'' \<and> cost p * n \<noteq> 0)"
    then have "isl (snd (deduct_amount s uname (cost p * n)))"
      using deduct_amount_fails[OF u] by blast
    then obtain s1 e where de: "deduct_amount s uname (cost p * n) = (s1, Inl e)"
      by (cases "deduct_amount s uname (cost p * n)") (auto simp: isl_def)
    have "buy_product s uname pid n = buy_except s1 usr p n e"
      using u ns d p st f un de by (simp add: buy_product_def buy_product_with_def)
    with ok buy_except_Inl[of s1 usr p n e] show False by simp
  qed
  have "0 \<le> deposit usr" using u by (simp add: get_user_Inr UserModel_init_Inr)
  with d have "0 < deposit usr" by simp
  with u p st f bnz show ?thesis by auto
qed

lemma buy_shop_10_5_500:
  "buy_product (shop 10 5 500) ''Johny'' ''1234e'' 1 = (shop 5 5 499, Inr (5, apple 5 499, [5]))"
proof -
  have u: "get_user (shop 10 5 500) ''Johny'' = Inr (johny 10)" by (simp add: get_user_shop)
  have p: "get_product (shop 10 5 500) ''1234e'' = Inr (apple 5 500)" by (simp add: get_product_shop)
  have "buy_product (shop 10 5 500) ''Johny'' ''1234e'' 1 = 
    ((shop 10 5 500)\<lparr>user_db := map (\<lambda>r. if username r = ''Johny'' then r\<lparr>deposit := deposit r - cost (apple 5 500) * 1\<rparr> else r)
                      (user_db (shop 10 5 500)),
       product_db := map (\<lambda>r. if productId r = ''1234e''
                                then r\<lparr>amountAvailable := amountAvailable r - 1\<rparr> else r)
                         (product_db (shop 10 5 500))\<rparr>,
     Inr (cost (apple 5 500) * 1, (apple 5 500)\<lparr>amountAvailable := amountAvailable (apple 5 500) - 1\<rparr>,
          make_change (deposit (johny 10) - cost (apple 5 500) * 1)))"
    by (rule buy_product_ok[OF u _ _ p]) (simp_all add: store_defs)
  then show ?thesis by (simp add: store_defs make_change_def)
qed




lemma get_user_cong:
  "user_db s' = user_db s \<Longrightarrow> get_user s' uname = get_user s uname"
  by (simp add: get_user_def)

lemma restore_rows:
  "map (\<lambda>r. if username r = uname then r\<lparr>deposit := deposit r + a\<rparr> else r)
     (map (\<lambda>r. if username r = uname then r\<lparr>deposit := deposit r - a\<rparr> else r) rows) = rows"
  by (induction rows) simp_all

text \<open>
  When the decrement fails after the debit without touching the user store and cost *
  quantity is itself one of the five coins, the refund restores the deposits and the
  error wraps the cause.
\<close>

lemma buy_product_with_refund_coin:
  assumes u: "get_user s uname = Inr usr" and b: "role usr = ''buyer''" and d: "deposit usr \<noteq> 0"
    and p: "get_product s pid = Inr p" and st: "\<not> amountAvailable p < n"
    and f: "\<not> deposit usr < cost p * n"
    and coin: "cost p * n \<in> {5, 10, 20, 50, 100}"
    and fails: "decrement
        (s\<lparr>user_db := map (\<lambda>r. if username r = uname
                                  then r\<lparr>deposit := deposit r - cost p * n\<rparr> else r)
                           (user_db s)\<rparr>) pid n = (s2, Inl e)"
    and keeps: "user_db s2 = map (\<lambda>r. if username r = uname
                                  then r\<lparr>deposit := deposit r - cost p * n\<rparr> else r)
                           (user_db s)"
  shows "buy_product_with decrement s uname pid n
           = (s2\<lparr>user_db := user_db s\<rparr>, Inl (From UserNotUpdatedException e))"
proof -
  let ?a = "cost p * n"
  let ?s1 = "s\<lparr>user_db := map (\<lambda>r. if username r = uname
                                  then r\<lparr>deposit := deposit r - ?a\<rparr> else r)
                           (user_db s)\<rparr>"
  let ?u1 = "usr\<lparr>deposit := deposit usr - ?a\<rparr>"
  have un: "username usr = uname" and pi: "productId p = pid"
    using u p by (auto simp: get_user_Inr get_product_Inr rows_of_user_def rows_of_product_def
        filter_eq_Cons_iff)
  have nz: "?a \<noteq> 0" using coin by auto
  have le: "?a \<le> deposit usr" using f by simp
  have ded: "deduct_amount s uname ?a = (?s1, Inr ?u1)"
    by (rule deduct_amount_ok[OF u b nz le])
  have nn: "0 \<le> deposit usr - ?a" using le by simp
  have u1: "get_user ?s1 uname = Inr ?u1"
    by (rule get_user_after_update[OF u, where f = "\<lambda>d. d - ?a", OF nn])
  have "user_db s2 = user_db ?s1" using keeps by simp
  then have "get_user s2 uname = get_user ?s1 uname" by (rule get_user_cong)
  with u1 have u2: "get_user s2 uname = Inr ?u1" by simp
  have b2: "role ?u1 = ''buyer''" using b by simp
  have dep: "deposit_amount s2 uname ?a =
     (s2\<lparr>user_db := map (\<lambda>r. if username r = uname then r\<lparr>deposit := deposit r + ?a\<rparr> else r)
                       (user_db s2)\<rparr>,
      Inr (?u1\<lparr>deposit := deposit ?u1 + ?a\<rparr>))"
    by (rule deposit_amount_ok[OF u2 b2 coin])
  have restored: "map (\<lambda>r. if username r = uname then r\<lparr>deposit := deposit r + ?a\<rparr> else r)
                       (user_db s2) = user_db s"
    unfolding keeps by (rule restore_rows)
  have ns: "role usr \<noteq> ''seller''" using b by simp
  show ?thesis
    using u ns d p st f un pi
    by (simp add: buy_product_with_def ded fails buy_except_def dep restored)
qed


section \<open>The claims\<close>

subsection \<open>C1: reimbursement after a failed decrement\<close>

text \<open>
  C1 says that whenever the debit succeeds and the decrement then fails, the buyer gets
  exactly cost * quantity back and the error of the purchase wraps the cause. The
  \<^verbatim>\<open>except\<close> clause gives the amount back through \<^verbatim>\<open>deposit_amount\<close>, which
  takes single coins only. Here the buyer holds 15 and buys 3 units at 5 while a rival
  empties the shelf: the debit leaves 0, the decrement raises, the refund of 15 is
  refused as a non-coin, the deposit stays at 0 and the error that leaves
  \<^verbatim>\<open>buy_product\<close> is the one of the refused deposit.
\<close>

theorem buy_product_refund_refused:
  "deduct_amount (shop 15 5 3) ''Johny'' (5 * 3) = (shop 0 5 3, Inr (johny 0))
   \<and> take_after_rival (shop 0 5 3) ''1234e'' 3
        = (shop 0 5 0, Inl (From ProductNotUpdatedException (Exc PurchaseException)))
   \<and> buy_product_with take_after_rival (shop 15 5 3) ''Johny'' ''1234e'' 3
        = (shop 0 5 0, Inl (From UserNotUpdatedException (Exc NonAllowedDepositException)))
   \<and> get_user (shop 15 5 3) ''Johny'' = Inr (johny 15)
   \<and> get_user (shop 0 5 0) ''Johny'' = Inr (johny 0)"
  by (simp add: store_defs user_defs product_defs buy_defs take_after_rival_def Let_def)

subsection \<open>C2: the result of a successful purchase\<close>

text \<open>
  C2: every purchase that succeeds was made by an existing buyer with a deposit d > 0 on
  an existing product with stock s >= quantity and d >= cost * quantity, and it returns
  cost * quantity, the product with stock s - quantity, and the change made from the
  remaining deposit d - cost * quantity.
\<close>

theorem buy_product_result:
  assumes ok: "buy_product s uname pid n = (s', Inr (total_spent, product_obj, change))"
  shows "\<exists>usr p. get_user s uname = Inr usr \<and> role usr = ''buyer'' \<and> 0 < deposit usr
           \<and> get_product s pid = Inr p \<and> n \<le> amountAvailable p \<and> cost p * n \<le> deposit usr
           \<and> total_spent = cost p * n
           \<and> product_obj = p\<lparr>amountAvailable := amountAvailable p - n\<rparr>
           \<and> change = make_change (deposit usr - cost p * n)"
proof -
  from buy_product_Inr_conditions[OF ok] obtain usr p where
    c: "get_user s uname = Inr usr" "role usr = ''buyer''" "0 < deposit usr"
       "get_product s pid = Inr p" "n \<le> amountAvailable p" "cost p * n \<le> deposit usr"
       "cost p * n \<noteq> 0"
    by blast
  have "deposit usr \<noteq> 0" "\<not> amountAvailable p < n" "\<not> deposit usr < cost p * n"
    using c by simp_all
  from buy_product_ok[OF c(1) c(2) this(1) c(4) this(2) this(3) c(7)] ok
  have "total_spent = cost p * n \<and> product_obj = p\<lparr>amountAvailable := amountAvailable p - n\<rparr>
           \<and> change = make_change (deposit usr - cost p * n)"
    by simp
  with c show ?thesis by blast
qed

text \<open>The example of the claim: balance 10, one unit at 5, stock 500.\<close>

theorem buy_product_result_witness:
  "buy_product (shop 10 5 500) ''Johny'' ''1234e'' 1 = (shop 5 5 499, Inr (5, apple 5 499, [5]))
   \<and> (\<exists>usr p. get_user (shop 10 5 500) ''Johny'' = Inr usr \<and> role usr = ''buyer''
           \<and> 0 < deposit usr
           \<and> get_product (shop 10 5 500) ''1234e'' = Inr p \<and> 1 \<le> amountAvailable p
           \<and> cost p * 1 \<le> deposit usr
           \<and> (5::int) = cost p * 1
           \<and> apple 5 499 = p\<lparr>amountAvailable := amountAvailable p - 1\<rparr>
           \<and> [5] = make_change (deposit usr - cost p * 1))"
  using buy_product_result[OF buy_shop_10_5_500] buy_shop_10_5_500 by simp

subsection \<open>C3: a debit beyond the deposit\<close>

text \<open>
  C3 says that \<^verbatim>\<open>deduct_amount\<close> fails and leaves the stored deposit unchanged
  whenever the result would be negative. The function writes the file before it builds
  the returned model: with a deposit of 5 and an amount of 10 the validator of the model
  raises, and the stored deposit is -5.
\<close>

theorem deduct_amount_stores_negative_deposit:
  "get_user (shop 5 5 500) ''Johny'' = Inr (johny 5)
   \<and> deduct_amount (shop 5 5 500) ''Johny'' 10
        = (shop (- 5) 5 500, Inl (From UserNotUpdatedException (Exc ValidationError)))
   \<and> map deposit (user_db (fst (deduct_amount (shop 5 5 500) ''Johny'' 10))) = [- 5, 0]"
  by (simp add: store_defs user_defs)

subsection \<open>C4: non-positive quantities\<close>




subsection \<open>C5: making change\<close>

text \<open>
  C5 as stated (the change of every non-negative n sums to n) does not hold: no coin is
  smaller than 5, and the change of 3 is empty.
\<close>

theorem make_change_sum_counterexample: "(0::int) \<le> 3 \<and> sum_list (make_change 3) \<noteq> 3"
  by (simp add: make_change_def)

text \<open>
  C5 amended: for every non-negative n the change is the greedy one over 100, 50, 20, 10,
  5, taking amount div coin coins of each value and going on with the remainder; it
  sums to n - n mod 5, that is to n exactly when n is a multiple of 5; the change of 0
  is empty and the change of 65 is 50, 10, 5.
\<close>

theorem make_change_greedy_sum:
  assumes "0 \<le> n"
  shows "make_change n =
       replicate (nat (n div 100)) 100
     @ replicate (nat (n mod 100 div 50)) 50
     @ replicate (nat (n mod 100 mod 50 div 20)) 20
     @ replicate (nat (n mod 100 mod 50 mod 20 div 10)) 10
     @ replicate (nat (n mod 100 mod 50 mod 20 mod 10 div 5)) 5
   \<and> sum_list (make_change n) = n - n mod 5
   \<and> make_change 0 = []
   \<and> make_change 65 = [50, 10, 5]"
proof (intro conjI)
  show "make_change 0 = []" by (simp add: make_change_def)
  show "make_change 65 = [50, 10, 5]" by (simp add: make_change_def)
  show "sum_list (make_change n) = n - n mod 5" by (rule make_change_sum[OF assms])
  show "make_change n =
       replicate (nat (n div 100)) 100
     @ replicate (nat (n mod 100 div 50)) 50
     @ replicate (nat (n mod 100 mod 50 div 20)) 20
     @ replicate (nat (n mod 100 mod 50 mod 20 div 10)) 10
     @ replicate (nat (n mod 100 mod 50 mod 20 mod 10 div 5)) 5"
    by (rule make_change_greedy[OF assms])
qed

theorem make_change_greedy_sum_witness:
  "(0::int) \<le> 65 \<and> make_change 65 = [50, 10, 5] \<and> sum_list (make_change 65) = 65
   \<and> make_change 0 = []"
proof -
  have h: "(0::int) \<le> 65" by simp
  from make_change_greedy_sum[OF h]
  have "sum_list (make_change 65) = 65 - 65 mod 5" "make_change 65 = [50, 10, 5]"
     "make_change 0 = []" by blast+
  then show ?thesis by simp
qed

subsection \<open>C6: stock and funds are checked before any write\<close>

text \<open>
  C6: a purchase that reaches the stock test with a quantity above the stock fails with
  \<^verbatim>\<open>ProductAmountUnavailableException\<close>, and one that passes it with a deposit below
  cost * quantity fails with \<^verbatim>\<open>PurchaseException\<close>; in both cases the store it
  leaves is the store it found.
\<close>

theorem buy_product_validation_leaves_store:
  assumes "get_user s uname = Inr usr" and "role usr \<noteq> ''seller''" and "deposit usr \<noteq> 0"
    and "get_product s pid = Inr p"
  shows "(amountAvailable p < n \<longrightarrow>
            buy_product s uname pid n = (s, Inl (Exc ProductAmountUnavailableException)))
       \<and> (\<not> amountAvailable p < n \<and> deposit usr < cost p * n \<longrightarrow>
            buy_product s uname pid n = (s, Inl (Exc PurchaseException)))"
  using assms by (simp add: buy_product_def buy_product_with_def)

theorem buy_product_validation_leaves_store_witness:
  "get_user (shop 30 5 500) ''Johny'' = Inr (johny 30) \<and> role (johny 30) \<noteq> ''seller''
   \<and> deposit (johny 30) \<noteq> 0 \<and> get_product (shop 30 5 500) ''1234e'' = Inr (apple 5 500)
   \<and> amountAvailable (apple 5 500) < 1000
   \<and> buy_product (shop 30 5 500) ''Johny'' ''1234e'' 1000
        = (shop 30 5 500, Inl (Exc ProductAmountUnavailableException))
   \<and> \<not> amountAvailable (apple 5 500) < 10 \<and> deposit (johny 30) < cost (apple 5 500) * 10
   \<and> buy_product (shop 30 5 500) ''Johny'' ''1234e'' 10
        = (shop 30 5 500, Inl (Exc PurchaseException))"
proof -
  have u: "get_user (shop 30 5 500) ''Johny'' = Inr (johny 30)" by (simp add: get_user_shop)
  have p: "get_product (shop 30 5 500) ''1234e'' = Inr (apple 5 500)"
    by (simp add: get_product_shop)
  have r: "role (johny 30) \<noteq> ''seller''" and d: "deposit (johny 30) \<noteq> 0"
    by (simp_all add: johny_def)
  have a: "amountAvailable (apple 5 500) = 500" "cost (apple 5 500) = 5"
    "deposit (johny 30) = 30"
    by (simp_all add: apple_def johny_def)
  from buy_product_validation_leaves_store[OF u r d p, of 1000]
    buy_product_validation_leaves_store[OF u r d p, of 10] u p r d a
  show ?thesis by simp
qed

subsection \<open>C7: the zero-deposit guard\<close>

text \<open>
  C7: a purchase by an existing buyer whose deposit is 0 fails with
  \<^verbatim>\<open>ZeroDepositException\<close>, whatever the product and the quantity.
\<close>

theorem buy_product_zero_deposit:
  assumes "get_user s uname = Inr usr" and "role usr = ''buyer''" and "deposit usr = 0"
  shows "buy_product s uname pid n = (s, Inl (Exc ZeroDepositException))"
  using assms by (simp add: buy_product_def buy_product_with_def)

theorem buy_product_zero_deposit_witness:
  "get_user (shop 0 5 500) ''Johny'' = Inr (johny 0) \<and> role (johny 0) = ''buyer''
   \<and> deposit (johny 0) = 0
   \<and> buy_product (shop 0 5 500) ''Johny'' ''1234e'' 1
        = (shop 0 5 500, Inl (Exc ZeroDepositException))"
proof -
  have g: "get_user (shop 0 5 500) ''Johny'' = Inr (johny 0)" by (simp add: get_user_shop)
  have r: "role (johny 0) = ''buyer''" by (simp add: johny_def)
  have d: "deposit (johny 0) = 0" by (simp add: johny_def)
  from buy_product_zero_deposit[OF g r d] g r d show ?thesis by simp
qed

subsection \<open>C8: deposits\<close>

text \<open>
  C8 as stated (every amount outside the coin set, 0 included, is refused) does not
  hold: a deposit of 0 is accepted and returns the account unchanged.
\<close>

theorem deposit_amount_zero_accepted:
  "(0::int) \<notin> {5, 10, 20, 50, 100}
   \<and> deposit_amount (shop 10 5 500) ''Johny'' 0 = (shop 10 5 500, Inr (johny 10))"
  by (simp add: store_defs user_defs)

text \<open>
  C8 amended: for an existing buyer, an amount other than 0 outside 5, 10, 20, 50, 100
  fails with \<^verbatim>\<open>UserNotUpdatedException\<close> raised from
  \<^verbatim>\<open>NonAllowedDepositException\<close> and leaves the store unchanged; the amount 0 is
  accepted and changes nothing; an amount of the set raises the stored deposit by exactly
  that amount; for a seller every deposit fails with \<^verbatim>\<open>UserNotUpdatedException\<close>
  raised from \<^verbatim>\<open>UserNotBuyerException\<close>.
\<close>

theorem deposit_amount_cases:
  assumes u: "get_user s uname = Inr usr"
  shows "(role usr = ''buyer'' \<and> dep \<noteq> 0 \<and> dep \<notin> {5, 10, 20, 50, 100} \<longrightarrow>
            deposit_amount s uname dep
              = (s, Inl (From UserNotUpdatedException (Exc NonAllowedDepositException))))
       \<and> (role usr = ''buyer'' \<longrightarrow> deposit_amount s uname 0 = (s, Inr usr))
       \<and> (role usr = ''buyer'' \<and> dep \<in> {5, 10, 20, 50, 100} \<longrightarrow>
            (\<exists>s'. deposit_amount s uname dep = (s', Inr (usr\<lparr>deposit := deposit usr + dep\<rparr>))
                 \<and> get_user s' uname = Inr (usr\<lparr>deposit := deposit usr + dep\<rparr>)))
       \<and> (role usr = ''seller'' \<longrightarrow>
            deposit_amount s uname dep
              = (s, Inl (From UserNotUpdatedException (Exc UserNotBuyerException))))"
proof (intro conjI impI)
  assume "role usr = ''buyer'' \<and> dep \<noteq> 0 \<and> dep \<notin> {5, 10, 20, 50, 100}"
  then show "deposit_amount s uname dep
              = (s, Inl (From UserNotUpdatedException (Exc NonAllowedDepositException)))"
    using deposit_amount_not_coin[OF u] by blast
next
  assume "role usr = ''buyer''"
  then show "deposit_amount s uname 0 = (s, Inr usr)"
    by (rule deposit_amount_zero[OF u])
next
  assume a: "role usr = ''buyer'' \<and> dep \<in> {5, 10, 20, 50, 100}"
  then have b: "role usr = ''buyer''" and c: "dep \<in> {5, 10, 20, 50, 100}" by blast+
  from c have "0 < dep" by auto
  moreover have "0 \<le> deposit usr" using u by (simp add: get_user_Inr UserModel_init_Inr)
  ultimately have nn: "0 \<le> deposit usr + dep" by simp
  show "\<exists>s'. deposit_amount s uname dep = (s', Inr (usr\<lparr>deposit := deposit usr + dep\<rparr>))
                 \<and> get_user s' uname = Inr (usr\<lparr>deposit := deposit usr + dep\<rparr>)"
    using deposit_amount_ok[OF u b c]
      get_user_after_update[OF u, where f = "\<lambda>d. d + dep", OF nn]
    by blast
next
  assume "role usr = ''seller''"
  then have "role usr \<noteq> ''buyer''" by simp
  then show "deposit_amount s uname dep
              = (s, Inl (From UserNotUpdatedException (Exc UserNotBuyerException)))"
    by (rule deposit_amount_not_buyer[OF u])
qed

text \<open>A refused 3, the deposits 5, 10 and 20 that add up to 35, and the seller.\<close>

theorem deposit_amount_cases_witness:
  "get_user (shop 0 5 500) ''Johny'' = Inr (johny 0)
   \<and> deposit_amount (shop 0 5 500) ''Johny'' 3
        = (shop 0 5 500, Inl (From UserNotUpdatedException (Exc NonAllowedDepositException)))
   \<and> deposit_amount (shop 0 5 500) ''Johny'' 5 = (shop 5 5 500, Inr (johny 5))
   \<and> deposit_amount (shop 5 5 500) ''Johny'' 10 = (shop 15 5 500, Inr (johny 15))
   \<and> deposit_amount (shop 15 5 500) ''Johny'' 20 = (shop 35 5 500, Inr (johny 35))
   \<and> get_user (shop 0 5 500) ''Blade'' = Inr blade
   \<and> deposit_amount (shop 0 5 500) ''Blade'' 5
        = (shop 0 5 500, Inl (From UserNotUpdatedException (Exc UserNotBuyerException)))"
proof -
  have u: "get_user (shop 0 5 500) ''Johny'' = Inr (johny 0)" by (simp add: get_user_shop)
  have v: "get_user (shop 0 5 500) ''Blade'' = Inr blade" by (rule get_user_shop_blade)
  have r: "role (johny 0) = ''buyer''" "role blade = ''seller''"
    by (simp_all add: johny_def blade_def)
  have a: "deposit_amount (shop 0 5 500) ''Johny'' 3
        = (shop 0 5 500, Inl (From UserNotUpdatedException (Exc NonAllowedDepositException)))"
    using deposit_amount_cases[OF u, of 3] r by simp
  have b: "deposit_amount (shop 0 5 500) ''Blade'' 5
        = (shop 0 5 500, Inl (From UserNotUpdatedException (Exc UserNotBuyerException)))"
    using deposit_amount_cases[OF v, of 5] r by simp
  have c: "deposit_amount (shop 0 5 500) ''Johny'' 5 = (shop 5 5 500, Inr (johny 5))"
    "deposit_amount (shop 5 5 500) ''Johny'' 10 = (shop 15 5 500, Inr (johny 15))"
    "deposit_amount (shop 15 5 500) ''Johny'' 20 = (shop 35 5 500, Inr (johny 35))"
    by (simp_all add: store_defs user_defs)
  from u v a b c show ?thesis by simp
qed

subsection \<open>C9: validation of a new product\<close>

text \<open>
  C9 as stated (a cost of 0 is rejected and no record is created) does not hold: the
  validator of the cost raises below 0 only, and a product that costs 0 is created.
\<close>

theorem create_new_product_cost_zero_accepted:
  "create_new_product (shop 0 5 500) ''p2'' ''pear'' 0 10 ''uqfp2h1jh8at5pvo''
     = ((shop 0 5 500)\<lparr>product_db := [apple 5 500,
           \<lparr>productId = ''p2'', productName = ''pear'', cost = 0, amountAvailable = 10,
            sellerId = ''uqfp2h1jh8at5pvo''\<rparr>]\<rparr>,
        Inr \<lparr>productId = ''p2'', productName = ''pear'', cost = 0, amountAvailable = 10,
            sellerId = ''uqfp2h1jh8at5pvo''\<rparr>)"
  by (simp add: store_defs product_defs Let_def)

text \<open>
  C9 amended: for a seller of the user store and a name that seller has not used yet,
  the creation fails with the validation error whenever the cost is < 0, the cost is no
  multiple of 5, or the amount is < 0; with a non-empty id, name and seller id, a cost
  >= 0 that is a multiple of 5 (0 included) and an amount >= 0 the product is returned.
\<close>

theorem create_new_product_validation:
  assumes nc: "filter (\<lambda>r. sellerId r = sid \<and> productName r = pname) (product_db s) = []"
    and sl: "sid \<in> set (map id' (user_db s))"
  shows "(c < 0 \<or> c mod 5 \<noteq> 0 \<or> amt < 0 \<longrightarrow>
            snd (create_new_product s new_id pname c amt sid) = Inl (Exc ValidationError))
       \<and> (new_id \<noteq> [] \<and> pname \<noteq> [] \<and> sid \<noteq> [] \<and> 0 \<le> c \<and> c mod 5 = 0 \<and> 0 \<le> amt \<longrightarrow>
            snd (create_new_product s new_id pname c amt sid)
              = Inr \<lparr>productId = new_id, productName = pname, cost = c,
                     amountAvailable = amt, sellerId = sid\<rparr>)"
  using nc sl
  by (auto simp: create_new_product_def Let_def ProductModel_init_def product_validators)

theorem create_new_product_validation_witness:
  "filter (\<lambda>r. sellerId r = ''uqfp2h1jh8at5pvo'' \<and> productName r = ''pear'')
      (product_db (shop 0 5 500)) = []
   \<and> ''uqfp2h1jh8at5pvo'' \<in> set (map id' (user_db (shop 0 5 500)))
   \<and> snd (create_new_product (shop 0 5 500) ''p2'' ''pear'' 6 10 ''uqfp2h1jh8at5pvo'')
        = Inl (Exc ValidationError)
   \<and> snd (create_new_product (shop 0 5 500) ''p2'' ''pear'' (- 5) 10 ''uqfp2h1jh8at5pvo'')
        = Inl (Exc ValidationError)
   \<and> snd (create_new_product (shop 0 5 500) ''p2'' ''pear'' 5 (- 1) ''uqfp2h1jh8at5pvo'')
        = Inl (Exc ValidationError)
   \<and> snd (create_new_product (shop 0 5 500) ''p2'' ''pear'' 0 10 ''uqfp2h1jh8at5pvo'')
        = Inr \<lparr>productId = ''p2'', productName = ''pear'', cost = 0, amountAvailable = 10,
               sellerId = ''uqfp2h1jh8at5pvo''\<rparr>"
proof -
  have nc: "filter (\<lambda>r. sellerId r = ''uqfp2h1jh8at5pvo'' \<and> productName r = ''pear'')
      (product_db (shop 0 5 500)) = []"
    by (simp add: store_defs)
  have sl: "''uqfp2h1jh8at5pvo'' \<in> set (map id' (user_db (shop 0 5 500)))"
    by (simp add: store_defs)
  from create_new_product_validation[OF nc sl, of 6 10 "''p2''"]
    create_new_product_validation[OF nc sl, of "- 5" 10 "''p2''"]
    create_new_product_validation[OF nc sl, of 5 "- 1" "''p2''"]
    create_new_product_validation[OF nc sl, of 0 10 "''p2''"] nc sl
  show ?thesis by simp
qed

subsection \<open>C10: passwords are stored as they are\<close>

text \<open>
  C10: \<^verbatim>\<open>hash_password\<close> returns its argument, so a password q verifies against the
  stored form of p exactly when q = p.
\<close>

theorem hash_password_identity:
  "hash_password p = p \<and> (verify_password (hash_password p) q \<longleftrightarrow> q = p)"
  by (auto simp: hash_password_def verify_password_def)

theorem hash_password_identity_witness:
  "hash_password ''abcde'' = ''abcde'' \<and> verify_password (hash_password ''abcde'') ''abcde''
   \<and> \<not> verify_password (hash_password ''abcde'') ''abcd''"
proof -
  from hash_password_identity[of "''abcde''" "''abcde''"]
  have a: "hash_password ''abcde'' = ''abcde''"
    and b: "verify_password (hash_password ''abcde'') ''abcde''"
    by blast+
  have ne: "''abcd'' \<noteq> ''abcde''" by simp
  from hash_password_identity[of "''abcde''" "''abcd''"] ne
  have c: "\<not> verify_password (hash_password ''abcde'') ''abcd''"
    by blast
  from a b c show ?thesis by blast
qed

end
